theory Spec2Isabelle
  imports Complex_Main
begin

section \<open>Conventions\<close>

text \<open>
  The game keeps all of its quantities in JavaScript numbers. They are modelled here as
  exact reals: \<open>+\<close>, \<open>-\<close>, \<open>*\<close>, \<open>/\<close>, \<open>Math.sin\<close>, \<open>Math.floor\<close> are the
  mathematical operations, without the rounding, overflow or underflow of IEEE doubles.
  Module-level variables of a source file become the fields of a record that the
  update function takes and returns. A handle that may still be undefined when an update
  runs (\<open>controls\<close>, \<open>sunMesh\<close>, the clock's DOM element) is an \<open>option\<close>.
\<close>

section \<open>Traffic lights (js/world/lighting.js)\<close>

text \<open>
  One entry of the \<open>trafficLights\<close> array, as \<open>createTrafficLight\<close> pushes it:
  \<open>{ red, yellow, green, timer: 0, state: 0 }\<close>. Of the three lamp meshes only the
  emissive colour is ever written, so each is represented by that colour (a hex number).
\<close>

record traffic_light =
  red :: nat
  yellow :: nat
  green :: nat
  timer :: real
  state :: nat

definition redTime :: real where
  "redTime = 4"

definition greenTime :: real where
  "greenTime = 4"

definition yellowTime :: real where
  "yellowTime = 2"

text \<open>The lamp that \<open>createTrafficLight\<close> registers: all emissive colours black.\<close>

definition createTrafficLight :: traffic_light where
  "createTrafficLight = \<lparr>red = 0, yellow = 0, green = 0, timer = 0, state = 0\<rparr>"

text \<open>
  The body of the \<open>forEach\<close> callback of \<open>updateTrafficLights\<close>: the timer is advanced,
  then the first matching branch of the \<open>if / else if\<close> chain fires, then the emissive
  colours are reset and the one of the current state is lit
  (\<open>0xff0000 = 16711680\<close>, \<open>0x00ff00 = 65280\<close>, \<open>0xffcc00 = 16763904\<close>).
\<close>

definition advance_light :: "real \<Rightarrow> traffic_light \<Rightarrow> traffic_light" where
  "advance_light delta light =
     (let l1 = light\<lparr>timer := timer light + delta\<rparr> in
      if state l1 = 0 \<and> timer l1 > redTime then l1\<lparr>state := 1, timer := 0\<rparr>
      else if state l1 = 1 \<and> timer l1 > greenTime then l1\<lparr>state := 2, timer := 0\<rparr>
      else if state l1 = 2 \<and> timer l1 > yellowTime then l1\<lparr>state := 0, timer := 0\<rparr>
      else l1)"

definition paint_light :: "traffic_light \<Rightarrow> traffic_light" where
  "paint_light light =
     (let l0 = light\<lparr>red := 0, yellow := 0, green := 0\<rparr>;
          l1 = (if state l0 = 0 then l0\<lparr>red := 16711680\<rparr> else l0);
          l2 = (if state l1 = 1 then l1\<lparr>green := 65280\<rparr> else l1);
          l3 = (if state l2 = 2 then l2\<lparr>yellow := 16763904\<rparr> else l2)
      in l3)"

definition update_light :: "real \<Rightarrow> traffic_light \<Rightarrow> traffic_light" where
  "update_light delta light = paint_light (advance_light delta light)"

definition updateTrafficLights :: "real \<Rightarrow> traffic_light list \<Rightarrow> traffic_light list" where
  "updateTrafficLights delta trafficLights = map (update_light delta) trafficLights"

text \<open>
  The vocabulary of the specification: the three states by name, the duration of each
  and its successor in the cycle RED, GREEN, YELLOW, RED.
\<close>

definition RED :: nat where
  "RED = 0"

definition GREEN :: nat where
  "GREEN = 1"

definition YELLOW :: nat where
  "YELLOW = 2"

definition state_duration :: "nat \<Rightarrow> real" where
  "state_duration s = (if s = RED then 4 else if s = GREEN then 4 else 2)"

definition next_in_cycle :: "nat \<Rightarrow> nat" where
  "next_in_cycle s = (if s = RED then GREEN else if s = GREEN then YELLOW else RED)"

definition is_light_state :: "nat \<Rightarrow> bool" where
  "is_light_state s = (s = RED \<or> s = GREEN \<or> s = YELLOW)"

section \<open>Player movement (js/core/controls.js)\<close>

text \<open>A \<open>THREE.Vector3\<close>.\<close>

record vec3 =
  vec_x :: real
  vec_y :: real
  vec_z :: real

text \<open>
  An entry of \<open>buildingColliders\<close>: \<open>{ x, z, width, depth }\<close>, the centre and the full
  extents of an axis-aligned rectangle.
\<close>

record collider =
  col_x :: real
  col_z :: real
  width :: real
  depth :: real

text \<open>
  The object that \<open>controls.getObject()\<close> returns is the camera. \<open>updateMovement\<close> reads and
  writes its position, and the two \<open>PointerLockControls\<close> methods it calls read the first
  column of the camera's matrix, the camera's local right axis. That library is not part
  of the repository; its two methods are written out below as three.js r152 defines them,
  with the right axis as a field of the camera (\<open>(1, 0, 0)\<close> while the player looks along
  the negative z axis, as at the start) and \<open>camera.up = (0, 1, 0)\<close>.
\<close>

record camera =
  position :: vec3
  right :: vec3

text \<open>The module-level variables of controls.js that \<open>updateMovement\<close> touches.\<close>

record controls_state =
  controls :: "camera option"
  moveForward :: bool
  moveBackward :: bool
  moveLeft :: bool
  moveRight :: bool
  sprint :: bool
  velocity :: vec3
  direction :: vec3

definition addScaledVector :: "vec3 \<Rightarrow> vec3 \<Rightarrow> real \<Rightarrow> vec3" where
  "addScaledVector p v s =
     \<lparr>vec_x = vec_x p + vec_x v * s, vec_y = vec_y p + vec_y v * s, vec_z = vec_z p + vec_z v * s\<rparr>"

definition crossVectors :: "vec3 \<Rightarrow> vec3 \<Rightarrow> vec3" where
  "crossVectors a b =
     \<lparr>vec_x = vec_y a * vec_z b - vec_z a * vec_y b,
      vec_y = vec_z a * vec_x b - vec_x a * vec_z b,
      vec_z = vec_x a * vec_y b - vec_y a * vec_x b\<rparr>"

definition camera_up :: vec3 where
  "camera_up = \<lparr>vec_x = 0, vec_y = 1, vec_z = 0\<rparr>"

text \<open>\<open>controls.moveRight(distance)\<close>: along the camera's right axis.\<close>

definition controls_moveRight :: "real \<Rightarrow> camera \<Rightarrow> camera" where
  "controls_moveRight distance cam =
     cam\<lparr>position := addScaledVector (position cam) (right cam) distance\<rparr>"

text \<open>\<open>controls.moveForward(distance)\<close>: along \<open>up \<times> right\<close>, parallel to the ground.\<close>

definition controls_moveForward :: "real \<Rightarrow> camera \<Rightarrow> camera" where
  "controls_moveForward distance cam =
     cam\<lparr>position := addScaledVector (position cam) (crossVectors camera_up (right cam)) distance\<rparr>"

definition vec_length :: "vec3 \<Rightarrow> real" where
  "vec_length v = sqrt (vec_x v * vec_x v + vec_y v * vec_y v + vec_z v * vec_z v)"

text \<open>\<open>Vector3.normalize\<close>: \<open>divideScalar(length() || 1)\<close>, the zero vector stays as it is.\<close>

definition normalize :: "vec3 \<Rightarrow> vec3" where
  "normalize v =
     (let l = (if vec_length v = 0 then 1 else vec_length v) in
      \<lparr>vec_x = vec_x v * (1 / l), vec_y = vec_y v * (1 / l), vec_z = vec_z v * (1 / l)\<rparr>)"

definition playerRadius :: real where
  "playerRadius = 1.0"

definition hits_collider :: "vec3 \<Rightarrow> collider \<Rightarrow> bool" where
  "hits_collider pos b =
     (let halfW = width b / 2 + playerRadius;
          halfD = depth b / 2 + playerRadius
      in vec_x pos > col_x b - halfW \<and> vec_x pos < col_x b + halfW \<and>
         vec_z pos > col_z b - halfD \<and> vec_z pos < col_z b + halfD)"

definition checkBuildingCollisions :: "collider list \<Rightarrow> vec3 \<Rightarrow> bool" where
  "checkBuildingCollisions buildingColliders pos = list_ex (hits_collider pos) buildingColliders"

text \<open>The stages of \<open>updateMovement\<close>, in the order of the source.\<close>

definition apply_friction :: "real \<Rightarrow> vec3 \<Rightarrow> vec3" where
  "apply_friction delta v =
     v\<lparr>vec_x := vec_x v - vec_x v * 10.0 * delta, vec_z := vec_z v - vec_z v * 10.0 * delta\<rparr>"

definition calc_direction :: "controls_state \<Rightarrow> vec3" where
  "calc_direction s =
     normalize ((direction s)
       \<lparr>vec_z := of_bool (moveForward s) - of_bool (moveBackward s),
        vec_x := of_bool (moveRight s) - of_bool (moveLeft s)\<rparr>)"

definition apply_speed :: "real \<Rightarrow> controls_state \<Rightarrow> vec3 \<Rightarrow> vec3 \<Rightarrow> vec3" where
  "apply_speed delta s dir v =
     (let speed = (if sprint s then 200.0 else 80.0);
          v1 = (if moveForward s \<or> moveBackward s
                then v\<lparr>vec_z := vec_z v - vec_z dir * speed * delta\<rparr> else v);
          v2 = (if moveLeft s \<or> moveRight s
                then v1\<lparr>vec_x := vec_x v1 - vec_x dir * speed * delta\<rparr> else v1)
      in v2)"

text \<open>
  The velocity and direction after friction and input, before the player is moved.
\<close>

definition steer :: "real \<Rightarrow> controls_state \<Rightarrow> controls_state" where
  "steer delta s =
     (let v = apply_friction delta (velocity s);
          dir = calc_direction s
      in s\<lparr>velocity := apply_speed delta s dir v, direction := dir\<rparr>)"

definition attempt_x :: "real \<Rightarrow> collider list \<Rightarrow> vec3 \<Rightarrow> camera \<times> vec3 \<Rightarrow> camera \<times> vec3" where
  "attempt_x delta cs oldPos cv =
     (case cv of (cam, v) \<Rightarrow>
        let cam1 = controls_moveRight (- vec_x v * delta) cam in
        if checkBuildingCollisions cs (position cam1)
        then (cam1\<lparr>position := (position cam1)\<lparr>vec_x := vec_x oldPos\<rparr>\<rparr>, v\<lparr>vec_x := 0\<rparr>)
        else (cam1, v))"

definition attempt_z :: "real \<Rightarrow> collider list \<Rightarrow> vec3 \<Rightarrow> camera \<times> vec3 \<Rightarrow> camera \<times> vec3" where
  "attempt_z delta cs oldPos cv =
     (case cv of (cam, v) \<Rightarrow>
        let cam1 = controls_moveForward (- vec_z v * delta) cam in
        if checkBuildingCollisions cs (position cam1)
        then (cam1\<lparr>position := (position cam1)\<lparr>vec_z := vec_z oldPos\<rparr>\<rparr>, v\<lparr>vec_z := 0\<rparr>)
        else (cam1, v))"

definition fix_height :: "camera \<times> vec3 \<Rightarrow> camera \<times> vec3" where
  "fix_height cv = (case cv of (cam, v) \<Rightarrow> (cam\<lparr>position := (position cam)\<lparr>vec_y := 2\<rparr>\<rparr>, v))"

definition limit :: real where
  "limit = 130"

definition clamp_to_city :: "camera \<times> vec3 \<Rightarrow> camera \<times> vec3" where
  "clamp_to_city cv =
     (case cv of (cam, v) \<Rightarrow>
        let pos = position cam;
            (pos1, v1) = (if vec_x pos < - limit then (pos\<lparr>vec_x := - limit\<rparr>, v\<lparr>vec_x := 0\<rparr>)
                          else (pos, v));
            (pos2, v2) = (if vec_x pos1 > limit then (pos1\<lparr>vec_x := limit\<rparr>, v1\<lparr>vec_x := 0\<rparr>)
                          else (pos1, v1));
            (pos3, v3) = (if vec_z pos2 < - limit then (pos2\<lparr>vec_z := - limit\<rparr>, v2\<lparr>vec_z := 0\<rparr>)
                          else (pos2, v2));
            (pos4, v4) = (if vec_z pos3 > limit then (pos3\<lparr>vec_z := limit\<rparr>, v3\<lparr>vec_z := 0\<rparr>)
                          else (pos3, v3))
        in (cam\<lparr>position := pos4\<rparr>, v4))"

text \<open>
  The camera and the velocity after both axis attempts and the height fix, before the
  boundary clamp: lines 111 to 129 of the source.
\<close>

definition move_player :: "real \<Rightarrow> collider list \<Rightarrow> camera \<Rightarrow> vec3 \<Rightarrow> camera \<times> vec3" where
  "move_player delta cs cam v =
     (let oldPos = position cam in
      fix_height (attempt_z delta cs oldPos (attempt_x delta cs oldPos (cam, v))))"

definition updateMovement :: "real \<Rightarrow> collider list \<Rightarrow> controls_state \<Rightarrow> controls_state" where
  "updateMovement delta buildingColliders s =
     (case controls s of
        None \<Rightarrow> s
      | Some cam \<Rightarrow>
          let s1 = steer delta s;
              (cam', v') = clamp_to_city (move_player delta buildingColliders cam (velocity s1))
          in s1\<lparr>controls := Some cam', velocity := v'\<rparr>)"

text \<open>Successive frames with the given elapsed times, no key or mouse event in between.\<close>

definition run_frames :: "collider list \<Rightarrow> real list \<Rightarrow> controls_state \<Rightarrow> controls_state" where
  "run_frames cs deltas s = foldl (\<lambda>st d. updateMovement d cs st) s deltas"


text \<open>Vocabulary for the properties of the movement update.\<close>

text \<open>The camera looks along the negative z axis: its right axis is world x.\<close>

definition axis_aligned :: "camera \<Rightarrow> bool" where
  "axis_aligned cam = (right cam = \<lparr>vec_x = 1, vec_y = 0, vec_z = 0\<rparr>)"

text \<open>
  For an axis-aligned camera at \<open>p\<close> with velocity \<open>v\<close>: the X move overlaps a padded
  collider; the x reached by the X attempt; the Z move from there overlaps one.
\<close>

definition x_blocked :: "real \<Rightarrow> collider list \<Rightarrow> vec3 \<Rightarrow> vec3 \<Rightarrow> bool" where
  "x_blocked delta cs p v = checkBuildingCollisions cs (p\<lparr>vec_x := vec_x p - vec_x v * delta\<rparr>)"

definition x_after :: "real \<Rightarrow> collider list \<Rightarrow> vec3 \<Rightarrow> vec3 \<Rightarrow> real" where
  "x_after delta cs p v = (if x_blocked delta cs p v then vec_x p else vec_x p - vec_x v * delta)"

definition z_blocked :: "real \<Rightarrow> collider list \<Rightarrow> vec3 \<Rightarrow> vec3 \<Rightarrow> bool" where
  "z_blocked delta cs p v =
     checkBuildingCollisions cs (p\<lparr>vec_x := x_after delta cs p v, vec_z := vec_z p + vec_z v * delta\<rparr>)"

text \<open>The player exists and stands inside the world boundary.\<close>

definition in_city :: "controls_state \<Rightarrow> bool" where
  "in_city s =
     (case controls s of
        None \<Rightarrow> False
      | Some cam \<Rightarrow> \<bar>vec_x (position cam)\<bar> \<le> limit \<and> \<bar>vec_z (position cam)\<bar> \<le> limit)"

text \<open>
  The state that \<open>initControls\<close> leaves: the camera at \<open>(0, 2, 20)\<close>, no key held, no
  velocity; and the same with the player put at \<open>(x, 2, z)\<close> with velocity \<open>(vx, 0, vz)\<close>.
\<close>

definition start_camera :: camera where
  "start_camera =
     \<lparr>position = \<lparr>vec_x = 0, vec_y = 2, vec_z = 20\<rparr>, right = \<lparr>vec_x = 1, vec_y = 0, vec_z = 0\<rparr>\<rparr>"

definition start_state :: controls_state where
  "start_state =
     \<lparr>controls = Some start_camera, moveForward = False, moveBackward = False,
      moveLeft = False, moveRight = False, sprint = False,
      velocity = \<lparr>vec_x = 0, vec_y = 0, vec_z = 0\<rparr>,
      direction = \<lparr>vec_x = 0, vec_y = 0, vec_z = 0\<rparr>\<rparr>"

definition place :: "real \<Rightarrow> real \<Rightarrow> real \<Rightarrow> real \<Rightarrow> controls_state" where
  "place x z vx vz =
     start_state\<lparr>controls := Some (start_camera\<lparr>position := \<lparr>vec_x = x, vec_y = 2, vec_z = z\<rparr>\<rparr>),
       velocity := \<lparr>vec_x = vx, vec_y = 0, vec_z = vz\<rparr>\<rparr>"

text \<open>A single collider, 10 by 10, centred at \<open>(10, 0)\<close>.\<close>

definition wall :: "collider list" where
  "wall = [\<lparr>col_x = 10, col_z = 0, width = 10, depth = 10\<rparr>]"


text \<open>
  A player east of the school, turned a quarter turn to the left so that the camera's right
  axis is \<open>(0, 0, -1)\<close> and forward is the negative x axis, walking forward (W held) at
  the steady walking speed towards the school.
\<close>

definition facing_west :: controls_state where
  "facing_west =
     \<lparr>controls = Some \<lparr>position = \<lparr>vec_x = 11.2, vec_y = 2, vec_z = - 40\<rparr>,
                        right = \<lparr>vec_x = 0, vec_y = 0, vec_z = - 1\<rparr>\<rparr>,
      moveForward = True, moveBackward = False, moveLeft = False, moveRight = False,
      sprint = False,
      velocity = \<lparr>vec_x = 0, vec_y = 0, vec_z = - 8\<rparr>,
      direction = \<lparr>vec_x = 0, vec_y = 0, vec_z = 1\<rparr>\<rparr>"

text \<open>
  For any camera: the X attempt, respectively the Z attempt, of a frame is rolled back;
  the position before the clamp is outside the boundary on x, respectively on z.
\<close>

definition x_rollback :: "real \<Rightarrow> collider list \<Rightarrow> camera \<Rightarrow> vec3 \<Rightarrow> bool" where
  "x_rollback delta cs cam v =
     checkBuildingCollisions cs (position (controls_moveRight (- vec_x v * delta) cam))"

definition z_rollback :: "real \<Rightarrow> collider list \<Rightarrow> camera \<Rightarrow> vec3 \<Rightarrow> bool" where
  "z_rollback delta cs cam v =
     (case attempt_x delta cs (position cam) (cam, v) of
        (cam1, v1) \<Rightarrow>
          checkBuildingCollisions cs (position (controls_moveForward (- vec_z v1 * delta) cam1)))"



section \<open>Day and night (js/world/lighting.js)\<close>

text \<open>
  The remainder operator \<open>%\<close> of JavaScript on numbers: the quotient is truncated towards
  zero, so the result has the sign of the dividend. (For a zero divisor JavaScript gives
  NaN; the game only divides by 1.)
\<close>

definition trunc :: "real \<Rightarrow> int" where
  "trunc x = (if 0 \<le> x then \<lfloor>x\<rfloor> else \<lceil>x\<rceil>)"

definition js_rem :: "real \<Rightarrow> real \<Rightarrow> real" where
  "js_rem a n = a - n * of_int (trunc (a / n))"

text \<open>
  The objects that \<open>updateDayNight\<close> writes. Of the sun and moon meshes the position and the
  visibility flag, of the directional light its position and intensity, of the hemisphere
  light its intensity, of a street lamp the intensity of its point light and the emissive
  intensity of its bulb. The update also moves the clouds and blends the sky and fog
  colour; neither reads or writes anything below and they are left out.
\<close>

record mesh =
  mesh_position :: vec3
  visible :: bool

record directional_light =
  light_position :: vec3
  intensity :: real

record street_lamp =
  light_intensity :: real
  bulb_emissiveIntensity :: real

text \<open>
  The module state of lighting.js, together with \<open>timeOfDay\<close> and \<open>dayNightAuto\<close>, which
  live in controls.js and are reached through \<open>getTimeOfDay\<close>, \<open>setTimeOfDay\<close> and
  \<open>getDayNightAuto\<close>. \<open>hemiLight\<close> holds the intensity of the hemisphere light.
\<close>

record lighting_state =
  hemiLight :: "real option"
  sunLight :: "directional_light option"
  sunMesh :: "mesh option"
  moonMesh :: "mesh option"
  streetLamps :: "street_lamp list"
  timeOfDay :: real
  dayNightAuto :: bool

definition cycleSpeed :: real where
  "cycleSpeed = 0.001388"

definition orbitRadius :: real where
  "orbitRadius = 150"

text \<open>The callback of \<open>streetLamps.forEach\<close>.\<close>

definition update_lamp :: "real \<Rightarrow> street_lamp \<Rightarrow> street_lamp" where
  "update_lamp nightFactor lamp =
     (let lamp_intensity = 3.0 * max 0 (nightFactor - 0.2) in
      lamp\<lparr>light_intensity := lamp_intensity,
           bulb_emissiveIntensity := (if lamp_intensity > 0.1 then 2.0 else 0)\<rparr>)"

text \<open>The phase the update works with: advanced and wrapped when the auto cycle is on.\<close>

definition advance_time :: "real \<Rightarrow> lighting_state \<Rightarrow> real" where
  "advance_time delta s =
     (if dayNightAuto s then js_rem (timeOfDay s + delta * cycleSpeed) 1 else timeOfDay s)"

text \<open>Everything \<open>updateDayNight\<close> derives from the phase \<open>t\<close> and writes.\<close>

definition render_sky :: "real \<Rightarrow> lighting_state \<Rightarrow> lighting_state" where
  "render_sky t s =
     (let angle = t * pi * 2;
          sunHeight = sin angle;
          sunX = cos angle * orbitRadius;
          sunY = sin angle * orbitRadius;
          sunZ = - 30;
          dayFactor = max 0 sunHeight;
          nightFactor = 1 - dayFactor
      in s\<lparr>timeOfDay := t,
           sunLight := map_option
             (\<lambda>l. l\<lparr>light_position := \<lparr>vec_x = sunX, vec_y = max 10 sunY, vec_z = sunZ\<rparr>,
                    intensity := 1.3 * dayFactor\<rparr>) (sunLight s),
           hemiLight := Some (0.4 + 0.6 * dayFactor),
           sunMesh := map_option
             (\<lambda>m. m\<lparr>mesh_position := \<lparr>vec_x = sunX, vec_y = sunY, vec_z = sunZ\<rparr>,
                    visible := sunY > - 10\<rparr>) (sunMesh s),
           moonMesh := map_option
             (\<lambda>m. m\<lparr>mesh_position := \<lparr>vec_x = - sunX, vec_y = - sunY, vec_z = - sunZ\<rparr>,
                    visible := - sunY > - 10\<rparr>) (moonMesh s),
           streetLamps := map (update_lamp nightFactor) (streetLamps s)\<rparr>)"

definition updateDayNight :: "real \<Rightarrow> lighting_state \<Rightarrow> lighting_state" where
  "updateDayNight delta s =
     (if hemiLight s = None \<or> sunLight s = None then s
      else render_sky (advance_time delta s) s)"

text \<open>
  The vocabulary of the specification: the height of the sun's orbit, the day and night
  factors as functions of the phase, and a lighting state with every handle initialised
  and one street lamp, at a given phase.
\<close>

definition sunY_of :: "real \<Rightarrow> real" where
  "sunY_of phase = sin (2 * pi * phase) * 150"

definition dayFactor_of :: "real \<Rightarrow> real" where
  "dayFactor_of phase = max 0 (sin (2 * pi * phase))"

definition nightFactor_of :: "real \<Rightarrow> real" where
  "nightFactor_of phase = 1 - dayFactor_of phase"

definition lit_world :: "real \<Rightarrow> bool \<Rightarrow> lighting_state" where
  "lit_world phase auto =
     \<lparr>hemiLight = Some 0.7,
      sunLight = Some \<lparr>light_position = \<lparr>vec_x = 50, vec_y = 60, vec_z = - 30\<rparr>, intensity = 1.0\<rparr>,
      sunMesh = Some \<lparr>mesh_position = \<lparr>vec_x = 0, vec_y = 0, vec_z = 0\<rparr>, visible = True\<rparr>,
      moonMesh = Some \<lparr>mesh_position = \<lparr>vec_x = 0, vec_y = 0, vec_z = 0\<rparr>, visible = True\<rparr>,
      streetLamps = [\<lparr>light_intensity = 0, bulb_emissiveIntensity = 0\<rparr>],
      timeOfDay = phase, dayNightAuto = auto\<rparr>"

section \<open>The HUD clock (js/ui/popup.js)\<close>

text \<open>
  \<open>Number.prototype.toString\<close> on an integer value: the decimal digits, with a minus sign
  for a negative number. \<open>String.prototype.padStart(2, '0')\<close>: zeros in front up to length 2.
\<close>

definition digit_char :: "nat \<Rightarrow> char" where
  "digit_char d = ''0123456789'' ! d"

fun dec_digits :: "nat \<Rightarrow> string" where
  "dec_digits n = (if n < 10 then [digit_char n] else dec_digits (n div 10) @ [digit_char (n mod 10)])"

declare dec_digits.simps [simp del]

definition toString :: "int \<Rightarrow> string" where
  "toString i = (if i < 0 then CHR ''-'' # dec_digits (nat (- i)) else dec_digits (nat i))"

definition padStart2 :: "string \<Rightarrow> string" where
  "padStart2 str = replicate (2 - length str) CHR ''0'' @ str"

text \<open>The text that \<open>updateGameClock\<close> computes from \<open>getTimeOfDay()\<close>.\<close>

definition clock_text :: "real \<Rightarrow> string" where
  "clock_text timeVal =
     (let totalHours0 = 6 + (timeVal * 24);
          totalHours = (if totalHours0 \<ge> 24 then totalHours0 - 24 else totalHours0);
          hours = \<lfloor>totalHours\<rfloor>;
          minutes = \<lfloor>(totalHours - of_int hours) * 60\<rfloor>;
          hStr = padStart2 (toString hours);
          mStr = padStart2 (toString minutes)
      in hStr @ '':'' @ mStr)"

text \<open>
  \<open>updateGameClock\<close>: the first argument is the text content of the element
  \<open>gameClock\<close>, \<open>None\<close> when the page has no such element and the update returns at once.
\<close>

definition updateGameClock :: "string option \<Rightarrow> real \<Rightarrow> string option" where
  "updateGameClock clockEl timeVal =
     (case clockEl of None \<Rightarrow> None | Some old \<Rightarrow> Some (clock_text timeVal))"

text \<open>The specification's reading: a number below 100 written with two digits.\<close>

definition two_digits :: "int \<Rightarrow> string" where
  "two_digits n = [digit_char (nat n div 10), digit_char (nat n mod 10)]"

section \<open>World generation (js/data/buildingData.js, js/world/buildings.js)\<close>

text \<open>
  A building configuration \<open>{ x, z, width, height, depth, color }\<close> of the data module;
  colours are hex numbers.
\<close>

record building_config =
  cfg_x :: real
  cfg_z :: real
  cfg_width :: real
  cfg_height :: real
  cfg_depth :: real
  cfg_color :: nat

definition reservedLocations :: "(real \<times> real) list" where
  "reservedLocations = [(0, - 40), (40, - 40)]"

definition skyscrapers :: "building_config list" where
  "skyscrapers =
     [\<lparr>cfg_x = - 80, cfg_z = 80, cfg_width = 14, cfg_height = 38, cfg_depth = 14, cfg_color = 10395294\<rparr>,
      \<lparr>cfg_x = - 40, cfg_z = 80, cfg_width = 14, cfg_height = 45, cfg_depth = 14, cfg_color = 7697781\<rparr>,
      \<lparr>cfg_x = - 80, cfg_z = 40, cfg_width = 14, cfg_height = 35, cfg_depth = 14, cfg_color = 6381921\<rparr>,
      \<lparr>cfg_x = 80, cfg_z = - 80, cfg_width = 14, cfg_height = 42, cfg_depth = 14, cfg_color = 6111287\<rparr>,
      \<lparr>cfg_x = 40, cfg_z = - 80, cfg_width = 14, cfg_height = 40, cfg_depth = 14, cfg_color = 7162945\<rparr>,
      \<lparr>cfg_x = 80, cfg_z = 80, cfg_width = 14, cfg_height = 36, cfg_depth = 14, cfg_color = 4545124\<rparr>,
      \<lparr>cfg_x = - 40, cfg_z = - 80, cfg_width = 14, cfg_height = 33, cfg_depth = 14, cfg_color = 3622735\<rparr>]"

definition isOccupied :: "real \<Rightarrow> real \<Rightarrow> bool" where
  "isOccupied x z =
     (if list_ex (\<lambda>p. fst p = x \<and> snd p = z) reservedLocations then True
      else if list_ex (\<lambda>p. cfg_x p = x \<and> cfg_z p = z) skyscrapers then True
      else False)"

definition gridRange :: "real list" where
  "gridRange = [- 120, - 80, - 40, 0, 40, 80, 120]"

definition metroColors :: "nat list" where
  "metroColors =
     [8421504, 11119017, 12632256, 13882323, 7833753, 7372944, 6266528, 11584734,
      15066338, 16119285]"

text \<open>
  The nested \<open>forEach\<close> that fills \<open>generatedBuildings\<close>, over the cells in the order the
  loops visit them. \<open>rnd\<close> is the sequence of values that \<open>Math.random()\<close> returns while the
  module is loaded, \<open>k\<close> the number of calls made so far: a cell that is not occupied makes
  four calls, for the height, the colour, the width and the depth, in this order. A value
  of \<open>Math.random()\<close> lies in \<open>[0, 1)\<close>, which keeps the colour index inside the palette.
\<close>

fun generate :: "(nat \<Rightarrow> real) \<Rightarrow> nat \<Rightarrow> (real \<times> real) list \<Rightarrow> building_config list" where
  "generate rnd k [] = []"
| "generate rnd k ((x, z) # cells) =
     (if isOccupied x z then generate rnd k cells
      else
        let height = (if \<bar>x\<bar> \<le> 40 \<and> \<bar>z\<bar> \<le> 40 then 20 + rnd k * 10 else 10 + rnd k * 8);
            color = metroColors ! nat \<lfloor>rnd (k + 1) * real (length metroColors)\<rfloor>
        in \<lparr>cfg_x = x, cfg_z = z, cfg_width = 12 + rnd (k + 2) * 2, cfg_height = height,
             cfg_depth = 12 + rnd (k + 3) * 2, cfg_color = color\<rparr>
           # generate rnd (k + 4) cells)"

definition generatedBuildings :: "(nat \<Rightarrow> real) \<Rightarrow> building_config list" where
  "generatedBuildings rnd = generate rnd 0 (List.product gridRange gridRange)"

definition roadsideBuildings :: "building_config list" where
  "roadsideBuildings = []"

definition mediumBuildings :: "(nat \<Rightarrow> real) \<Rightarrow> building_config list" where
  "mediumBuildings rnd = generatedBuildings rnd"

text \<open>World constants of buildings.js.\<close>

definition roadWidth :: real where
  "roadWidth = 12"

definition gridSpacing :: real where
  "gridSpacing = 40"

text \<open>
  The values of the loop variable of
  \<open>for (let i = -100; i <= 100; i += gridSpacing)\<close>, the lines on which roads lie.
\<close>

definition road_lines :: "real list" where
  "road_lines = [- 100, - 60, - 20, 20, 60, 100]"

text \<open>
  A road \<open>new Road(width, length, x, z)\<close>: a strip with centre \<open>(x, z)\<close>, \<open>width\<close> along x and
  \<open>length\<close> along z. \<open>createRoads\<close> lays the north-south roads, then the west-east ones.
\<close>

record road =
  road_width :: real
  road_length :: real
  road_x :: real
  road_z :: real

definition createRoads :: "road list" where
  "createRoads =
     map (\<lambda>i. \<lparr>road_width = roadWidth, road_length = 300, road_x = i, road_z = 0\<rparr>) road_lines @
     map (\<lambda>j. \<lparr>road_width = 300, road_length = roadWidth, road_x = 0, road_z = j\<rparr>) road_lines"

text \<open>The collider that each of the three loops of \<open>createBuildings\<close> pushes for a building.\<close>

definition collider_of :: "building_config \<Rightarrow> collider" where
  "collider_of config =
     \<lparr>col_x = cfg_x config, col_z = cfg_z config, width = cfg_width config,
      depth = cfg_depth config\<rparr>"

definition createBuildings :: "(nat \<Rightarrow> real) \<Rightarrow> collider list" where
  "createBuildings rnd =
     map collider_of roadsideBuildings @ map collider_of (mediumBuildings rnd) @
     map collider_of skyscrapers"

definition school_collider :: collider where
  "school_collider = \<lparr>col_x = 0, col_z = - 40, width = 20, depth = 15\<rparr>"

text \<open>
  \<open>buildingColliders\<close> when \<open>initWorld\<close> returns: the array starts empty, \<open>createBuildings\<close>
  fills it and the school's collider is pushed last. The ground, the roads, the trees, the
  parking lot and the zebra crossings register no collider.
\<close>

definition initWorld :: "(nat \<Rightarrow> real) \<Rightarrow> collider list" where
  "initWorld rnd = createBuildings rnd @ [school_collider]"

text \<open>\<open>isTooCloseToRoad\<close>, the strict distance check; its only callers are in \<open>createTrees\<close>.\<close>

definition isTooCloseToRoad :: "real \<Rightarrow> real \<Rightarrow> bool" where
  "isTooCloseToRoad x z =
     (let margin = 5 in
      if \<bar>z\<bar> < roadWidth / 2 + margin then True
      else if \<bar>x\<bar> < roadWidth / 2 + margin then True
      else list_ex (\<lambda>i. (\<bar>x - i\<bar> < roadWidth / 2 + margin \<and> \<bar>z\<bar> < 150) \<or>
                         (\<bar>z - i\<bar> < roadWidth / 2 + margin \<and> \<bar>x\<bar> < 150)) road_lines)"

text \<open>
  The vocabulary of the specification. Two colliders overlap when their rectangles, each
  with its full width and depth around its centre, share a point. A point is inside a
  collider's rectangle; it is within distance \<open>m\<close> of a road line of the grid, along the
  length of the road; it is on the surface of a road.
\<close>

definition rect_overlap :: "collider \<Rightarrow> collider \<Rightarrow> bool" where
  "rect_overlap a b =
     (\<bar>col_x a - col_x b\<bar> \<le> (width a + width b) / 2 \<and>
      \<bar>col_z a - col_z b\<bar> \<le> (depth a + depth b) / 2)"

definition inside :: "collider \<Rightarrow> real \<Rightarrow> real \<Rightarrow> bool" where
  "inside c px pz = (\<bar>px - col_x c\<bar> \<le> width c / 2 \<and> \<bar>pz - col_z c\<bar> \<le> depth c / 2)"

definition near_road_line :: "real \<Rightarrow> real \<Rightarrow> real \<Rightarrow> bool" where
  "near_road_line m px pz =
     list_ex (\<lambda>i. (\<bar>px - i\<bar> < m \<and> \<bar>pz\<bar> < 150) \<or> (\<bar>pz - i\<bar> < m \<and> \<bar>px\<bar> < 150)) road_lines"

definition on_road :: "real \<Rightarrow> real \<Rightarrow> bool" where
  "on_road px pz =
     list_ex (\<lambda>r. \<bar>px - road_x r\<bar> \<le> road_width r / 2 \<and> \<bar>pz - road_z r\<bar> \<le> road_length r / 2)
       createRoads"

definition road_buffer :: real where
  "road_buffer = roadWidth / 2 + 5"

text \<open>The centre of a collider.\<close>

definition col_centre :: "collider \<Rightarrow> real \<times> real" where
  "col_centre c = (col_x c, col_z c)"

text \<open>A random source that always returns one half.\<close>

definition rnd_half :: "nat \<Rightarrow> real" where
  "rnd_half n = 1 / 2"

section \<open>Properties of the traffic lights\<close>

lemma state_paint_light: "state (paint_light l) = state l"
  by (simp add: paint_light_def Let_def)

lemma timer_paint_light: "timer (paint_light l) = timer l"
  by (simp add: paint_light_def Let_def)

lemma state_update_light:
  "is_light_state (state l) \<Longrightarrow>
   state (update_light delta l) =
     (if timer l + delta > state_duration (state l) then next_in_cycle (state l) else state l)"
  by (auto simp: update_light_def state_paint_light advance_light_def Let_def
      is_light_state_def RED_def GREEN_def YELLOW_def state_duration_def next_in_cycle_def
      redTime_def greenTime_def yellowTime_def)

lemma timer_update_light:
  "is_light_state (state l) \<Longrightarrow>
   timer (update_light delta l) =
     (if timer l + delta > state_duration (state l) then 0 else timer l + delta)"
  by (auto simp: update_light_def timer_paint_light advance_light_def Let_def
      is_light_state_def RED_def GREEN_def YELLOW_def state_duration_def
      redTime_def greenTime_def yellowTime_def)

lemma state_update_light_cases:
  "state (update_light delta l) = state l \<or>
   state (update_light delta l) = next_in_cycle (state l)"
  by (auto simp: update_light_def state_paint_light advance_light_def Let_def
      RED_def GREEN_def YELLOW_def next_in_cycle_def)

lemma updateTrafficLights_nth:
  "i < length ls \<Longrightarrow> updateTrafficLights delta ls ! i = update_light delta (ls ! i)"
  by (simp add: updateTrafficLights_def)

text \<open>
  C4. Every traffic light of the array, on a tick of elapsed time \<open>delta > 0\<close>: the timer
  grows by \<open>delta\<close>; when the grown timer exceeds the duration of the current state
  (RED 4, GREEN 4, YELLOW 2) the light moves to the next state of the cycle and its timer
  is reset to zero, the overshoot being dropped; otherwise the state is kept. In particular
  a freshly created light (RED, timer 0) after one tick of \<open>redTime + eps\<close> is GREEN with a
  timer of zero, hence at most \<open>eps\<close>.
\<close>

theorem traffic_light_tick:
  assumes "0 < delta" and "i < length ls" and "is_light_state (state (ls ! i))"
    and "0 < eps"
  shows "state (updateTrafficLights delta ls ! i) =
           (if timer (ls ! i) + delta > state_duration (state (ls ! i))
            then next_in_cycle (state (ls ! i)) else state (ls ! i)) \<and>
         timer (updateTrafficLights delta ls ! i) =
           (if timer (ls ! i) + delta > state_duration (state (ls ! i))
            then 0 else timer (ls ! i) + delta) \<and>
         state (updateTrafficLights (redTime + eps) [createTrafficLight] ! 0) = GREEN \<and>
         timer (updateTrafficLights (redTime + eps) [createTrafficLight] ! 0) = 0 \<and>
         timer (updateTrafficLights (redTime + eps) [createTrafficLight] ! 0) \<le> eps"
proof -
  have st: "state (updateTrafficLights delta ls ! i) =
           (if timer (ls ! i) + delta > state_duration (state (ls ! i))
            then next_in_cycle (state (ls ! i)) else state (ls ! i))"
    using assms by (simp only: updateTrafficLights_nth state_update_light)
  have tm: "timer (updateTrafficLights delta ls ! i) =
           (if timer (ls ! i) + delta > state_duration (state (ls ! i))
            then 0 else timer (ls ! i) + delta)"
    using assms by (simp only: updateTrafficLights_nth timer_update_light)
  have fresh: "is_light_state (state createTrafficLight)"
    by (simp add: createTrafficLight_def is_light_state_def RED_def)
  have dur: "state_duration (state createTrafficLight) = redTime"
    and nxt: "next_in_cycle (state createTrafficLight) = GREEN"
    and t0: "timer createTrafficLight = 0"
    by (simp_all add: createTrafficLight_def state_duration_def next_in_cycle_def RED_def
        redTime_def)
  have one: "updateTrafficLights d [createTrafficLight] ! 0 = update_light d createTrafficLight"
    for d
    by (simp add: updateTrafficLights_def)
  have ex: "state (update_light (redTime + eps) createTrafficLight) = GREEN \<and>
        timer (update_light (redTime + eps) createTrafficLight) = 0"
    using \<open>0 < eps\<close>
    by (simp add: state_update_light [OF fresh] timer_update_light [OF fresh] dur nxt t0)
  from st tm ex \<open>0 < eps\<close> show ?thesis
    by (simp only: one) simp
qed

theorem traffic_light_tick_witness:
  "state (updateTrafficLights 5 [createTrafficLight] ! 0) = GREEN \<and>
   timer (updateTrafficLights 5 [createTrafficLight] ! 0) = 0 \<and>
   state (updateTrafficLights 3 [createTrafficLight] ! 0) = RED \<and>
   timer (updateTrafficLights 3 [createTrafficLight] ! 0) = 3"
  using traffic_light_tick [of 5 0 "[createTrafficLight]" 1]
    traffic_light_tick [of 3 0 "[createTrafficLight]" 1]
  by (simp add: is_light_state_def createTrafficLight_def RED_def GREEN_def
      state_duration_def next_in_cycle_def redTime_def)

text \<open>
  C10. One call of \<open>updateTrafficLights\<close> makes at most one transition per light: whatever
  the starting state and timer and however large the elapsed time, the state afterwards
  is the state before or its immediate successor in the cycle; no state is skipped.
\<close>

theorem traffic_light_single_transition:
  assumes "i < length ls"
  shows "state (updateTrafficLights delta ls ! i) = state (ls ! i) \<or>
         state (updateTrafficLights delta ls ! i) = next_in_cycle (state (ls ! i))"
  using assms state_update_light_cases [of delta "ls ! i"]
  by (simp only: updateTrafficLights_nth)

theorem traffic_light_single_transition_witness:
  "state (updateTrafficLights 100 [createTrafficLight] ! 0) = GREEN \<and>
   next_in_cycle (state ([createTrafficLight] ! 0)) = GREEN \<and>
   redTime + greenTime + yellowTime < 100"
  using traffic_light_single_transition [of 0 "[createTrafficLight]" 100]
  by (simp add: updateTrafficLights_def update_light_def paint_light_def advance_light_def
      createTrafficLight_def next_in_cycle_def RED_def GREEN_def YELLOW_def
      redTime_def greenTime_def yellowTime_def)

section \<open>Properties of the movement update\<close>

lemma clamp_to_city_bounds:
  "clamp_to_city (cam, v) = (cam', v') \<Longrightarrow>
   - limit \<le> vec_x (position cam') \<and> vec_x (position cam') \<le> limit \<and>
   - limit \<le> vec_z (position cam') \<and> vec_z (position cam') \<le> limit"
  by (auto simp: clamp_to_city_def Let_def limit_def split: if_splits prod.splits)

lemma clamp_to_city_x:
  "clamp_to_city (cam, v) = (cam', v') \<Longrightarrow>
   (vec_x (position cam) > limit \<longrightarrow> vec_x (position cam') = limit \<and> vec_x v' = 0) \<and>
   (vec_x (position cam) < - limit \<longrightarrow> vec_x (position cam') = - limit \<and> vec_x v' = 0) \<and>
   (- limit \<le> vec_x (position cam) \<and> vec_x (position cam) \<le> limit \<longrightarrow>
      vec_x (position cam') = vec_x (position cam) \<and> vec_x v' = vec_x v)"
  by (auto simp: clamp_to_city_def Let_def limit_def split: if_splits prod.splits)

lemma clamp_to_city_z:
  "clamp_to_city (cam, v) = (cam', v') \<Longrightarrow>
   (vec_z (position cam) > limit \<longrightarrow> vec_z (position cam') = limit \<and> vec_z v' = 0) \<and>
   (vec_z (position cam) < - limit \<longrightarrow> vec_z (position cam') = - limit \<and> vec_z v' = 0) \<and>
   (- limit \<le> vec_z (position cam) \<and> vec_z (position cam) \<le> limit \<longrightarrow>
      vec_z (position cam') = vec_z (position cam) \<and> vec_z v' = vec_z v)"
  by (auto simp: clamp_to_city_def Let_def limit_def split: if_splits prod.splits)

lemma updateMovement_Some:
  "controls s = Some cam \<Longrightarrow>
   updateMovement delta cs s =
     (steer delta s)\<lparr>controls := Some (fst (clamp_to_city (move_player delta cs cam (velocity (steer delta s))))),
        velocity := snd (clamp_to_city (move_player delta cs cam (velocity (steer delta s))))\<rparr>"
  by (simp add: updateMovement_def Let_def split: prod.splits)

lemma hits_collider_iff:
  "hits_collider q b \<longleftrightarrow>
     \<bar>vec_x q - col_x b\<bar> < width b / 2 + 1 \<and> \<bar>vec_z q - col_z b\<bar> < depth b / 2 + 1"
  by (auto simp: hits_collider_def Let_def playerRadius_def abs_less_iff)

lemma checkBuildingCollisions_iff:
  "checkBuildingCollisions cs q \<longleftrightarrow>
     (\<exists>b \<in> set cs. \<bar>vec_x q - col_x b\<bar> < width b / 2 + 1 \<and>
                   \<bar>vec_z q - col_z b\<bar> < depth b / 2 + 1)"
  by (simp add: checkBuildingCollisions_def list_ex_iff hits_collider_iff)

lemma move_player_aligned:
  assumes "axis_aligned cam"
  shows "move_player delta cs cam v =
     (cam\<lparr>position := \<lparr>vec_x = x_after delta cs (position cam) v, vec_y = 2,
          vec_z = (if z_blocked delta cs (position cam) v then vec_z (position cam)
                   else vec_z (position cam) + vec_z v * delta)\<rparr>\<rparr>,
      v\<lparr>vec_x := (if x_blocked delta cs (position cam) v then 0 else vec_x v),
        vec_z := (if z_blocked delta cs (position cam) v then 0 else vec_z v)\<rparr>)"
proof -
  obtain p r where cam: "cam = \<lparr>position = p, right = r\<rparr>"
    by (cases cam) simp
  obtain x y z where p: "p = \<lparr>vec_x = x, vec_y = y, vec_z = z\<rparr>"
    by (cases p) simp
  from assms cam have r: "r = \<lparr>vec_x = 1, vec_y = 0, vec_z = 0\<rparr>"
    by (simp add: axis_aligned_def)
  show ?thesis
    unfolding cam p r
    by (simp add: move_player_def attempt_x_def attempt_z_def fix_height_def Let_def
      controls_moveRight_def controls_moveForward_def addScaledVector_def crossVectors_def
      camera_up_def x_blocked_def x_after_def z_blocked_def)
qed

lemma updateMovement_in_city:
  assumes "controls s = Some cam"
  shows "in_city (updateMovement delta cs s)"
proof -
  obtain pc pv where mp: "move_player delta cs cam (velocity (steer delta s)) = (pc, pv)"
    by (cases "move_player delta cs cam (velocity (steer delta s))")
  obtain cam' v' where cl: "clamp_to_city (pc, pv) = (cam', v')"
    by (cases "clamp_to_city (pc, pv)")
  from clamp_to_city_bounds [OF cl] show ?thesis
    by (simp add: updateMovement_Some [OF assms] mp cl in_city_def abs_le_iff)
qed

lemma in_city_controls: "in_city s \<Longrightarrow> \<exists>cam. controls s = Some cam"
  by (cases "controls s") (simp_all add: in_city_def)

lemma controls_updateMovement:
  "controls s = Some cam \<Longrightarrow> \<exists>cam'. controls (updateMovement delta cs s) = Some cam'"
  by (simp add: updateMovement_Some)

lemma run_frames_snoc:
  "run_frames cs (ds @ [d]) s = updateMovement d cs (run_frames cs ds s)"
  by (simp add: run_frames_def)

lemma controls_run_frames:
  "controls s = Some cam \<Longrightarrow> \<exists>cam'. controls (run_frames cs ds s) = Some cam'"
proof (induction ds rule: rev_induct)
  case Nil
  then show ?case by (simp add: run_frames_def)
next
  case (snoc d ds)
  then obtain c where "controls (run_frames cs ds s) = Some c" by blast
  then show ?case
    by (simp only: run_frames_snoc controls_updateMovement)
qed

lemma run_frames_in_city:
  assumes "controls s = Some cam" and "ds \<noteq> []"
  shows "in_city (run_frames cs ds s)"
proof -
  from \<open>ds \<noteq> []\<close> obtain ds' d where ds: "ds = ds' @ [d]"
    by (cases ds rule: rev_cases) auto
  from controls_run_frames [OF assms(1)] obtain c where "controls (run_frames cs ds' s) = Some c"
    by blast
  then show ?thesis
    by (simp only: ds run_frames_snoc updateMovement_in_city)
qed

text \<open>
  C8. After every movement update the player's x and z lie in the symmetric world
  boundary \<open>[-130, 130]\<close>, whatever the state before (so the bound is preserved by every
  frame of any run, from an in-bounds start in particular). When the position reached
  before the clamp, \<open>pc\<close>, is outside on an axis (for example at \<open>limit + 50\<close>), the
  coordinate ends exactly on the limit of that side and the velocity on that axis is 0.
\<close>

theorem world_boundary_clamp:
  assumes "controls s = Some cam"
    and "move_player delta cs cam (velocity (steer delta s)) = (pc, pv)"
    and "ds \<noteq> []"
  shows "limit = 130 \<and>
    (\<exists>cam'. controls (updateMovement delta cs s) = Some cam' \<and>
       - limit \<le> vec_x (position cam') \<and> vec_x (position cam') \<le> limit \<and>
       - limit \<le> vec_z (position cam') \<and> vec_z (position cam') \<le> limit \<and>
       (vec_x (position pc) > limit \<longrightarrow>
          vec_x (position cam') = limit \<and> vec_x (velocity (updateMovement delta cs s)) = 0) \<and>
       (vec_x (position pc) < - limit \<longrightarrow>
          vec_x (position cam') = - limit \<and> vec_x (velocity (updateMovement delta cs s)) = 0) \<and>
       (vec_z (position pc) > limit \<longrightarrow>
          vec_z (position cam') = limit \<and> vec_z (velocity (updateMovement delta cs s)) = 0) \<and>
       (vec_z (position pc) < - limit \<longrightarrow>
          vec_z (position cam') = - limit \<and> vec_z (velocity (updateMovement delta cs s)) = 0)) \<and>
    in_city (run_frames cs ds s)"
proof -
  obtain cam' v' where cl: "clamp_to_city (pc, pv) = (cam', v')"
    by (cases "clamp_to_city (pc, pv)")
  have upd: "controls (updateMovement delta cs s) = Some cam'"
    "velocity (updateMovement delta cs s) = v'"
    by (simp_all add: updateMovement_Some [OF assms(1)] assms(2) cl)
  from clamp_to_city_bounds [OF cl] clamp_to_city_x [OF cl] clamp_to_city_z [OF cl]
    run_frames_in_city [OF assms(1) assms(3)]
  show ?thesis
    by (simp add: upd limit_def)
qed

text \<open>The definitions that evaluate a concrete movement update.\<close>

lemmas movement_defs =
  updateMovement_def steer_def apply_friction_def calc_direction_def normalize_def
  vec_length_def apply_speed_def move_player_def attempt_x_def attempt_z_def fix_height_def
  clamp_to_city_def controls_moveRight_def controls_moveForward_def addScaledVector_def
  crossVectors_def camera_up_def checkBuildingCollisions_def hits_collider_def
  playerRadius_def limit_def start_camera_def start_state_def place_def Let_def

theorem world_boundary_clamp_witness:
  "vec_x (position (fst (move_player (1/20) []
       (start_camera\<lparr>position := \<lparr>vec_x = 130, vec_y = 2, vec_z = 0\<rparr>\<rparr>)
       (velocity (steer (1/20) (place 130 0 (- 2000) 0)))))) = limit + 50 \<and>
   controls (updateMovement (1/20) [] (place 130 0 (- 2000) 0)) =
     Some (start_camera\<lparr>position := \<lparr>vec_x = limit, vec_y = 2, vec_z = 0\<rparr>\<rparr>) \<and>
   vec_x (velocity (updateMovement (1/20) [] (place 130 0 (- 2000) 0))) = 0 \<and>
   in_city (run_frames [] [1/20] (place 130 0 (- 2000) 0))"
  using world_boundary_clamp [of "place 130 0 (- 2000) 0"
      "start_camera\<lparr>position := \<lparr>vec_x = 130, vec_y = 2, vec_z = 0\<rparr>\<rparr>" "1/20" "[]"
      "start_camera\<lparr>position := \<lparr>vec_x = 180, vec_y = 2, vec_z = 0\<rparr>\<rparr>"
      "\<lparr>vec_x = - 1000, vec_y = 0, vec_z = 0\<rparr>" "[1/20]"]
  by (simp add: movement_defs run_frames_def in_city_def)

lemma clamp_to_city_inside:
  "\<bar>vec_x (position cam)\<bar> \<le> limit \<Longrightarrow> \<bar>vec_z (position cam)\<bar> \<le> limit \<Longrightarrow>
   clamp_to_city (cam, v) = (cam, v)"
  by (cases cam) (simp add: clamp_to_city_def Let_def limit_def abs_le_iff)

lemma snd_move_player:
  "snd (move_player delta cs cam v) =
     v\<lparr>vec_x := (if x_rollback delta cs cam v then 0 else vec_x v),
       vec_z := (if z_rollback delta cs cam v then 0 else vec_z v)\<rparr>"
  by (cases v)
    (simp add: move_player_def attempt_x_def attempt_z_def fix_height_def Let_def
      x_rollback_def z_rollback_def)

lemma x_rollback_keeps_x:
  "x_rollback delta cs cam v \<Longrightarrow>
   vec_x (position (fst (attempt_x delta cs (position cam) (cam, v)))) = vec_x (position cam)"
  by (simp add: attempt_x_def x_rollback_def Let_def)

lemma z_rollback_keeps_z:
  "z_rollback delta cs cam v \<Longrightarrow>
   vec_z (position (fst (move_player delta cs cam v))) = vec_z (position cam)"
  by (cases "attempt_x delta cs (position cam) (cam, v)")
    (simp add: move_player_def fix_height_def attempt_z_def z_rollback_def Let_def)

text \<open>
  With the camera's right axis along world x the X attempt moves along x and the Z attempt
  along z, each tested on its own against the padded colliders, the Z attempt from the
  position the X attempt left; a player whose X move is blocked while the Z move is free
  keeps the old x, outside every padded collider, and slides along z. For any camera a
  rolled back attempt leaves its velocity component 0.
\<close>

lemma aligned_axis_separation:
  assumes "controls s = Some cam" and "position cam = p" and "velocity (steer delta s) = v"
  shows "(checkBuildingCollisions cs q \<longleftrightarrow>
            (\<exists>b \<in> set cs. \<bar>vec_x q - col_x b\<bar> < width b / 2 + 1 \<and>
                          \<bar>vec_z q - col_z b\<bar> < depth b / 2 + 1)) \<and>
         snd (move_player delta cs cam v) =
           v\<lparr>vec_x := (if x_rollback delta cs cam v then 0 else vec_x v),
             vec_z := (if z_rollback delta cs cam v then 0 else vec_z v)\<rparr> \<and>
         (x_rollback delta cs cam v \<longrightarrow>
            vec_x (position (fst (attempt_x delta cs p (cam, v)))) = vec_x p) \<and>
         (z_rollback delta cs cam v \<longrightarrow>
            vec_z (position (fst (move_player delta cs cam v))) = vec_z p) \<and>
         (axis_aligned cam \<longrightarrow>
            move_player delta cs cam v =
              (cam\<lparr>position := \<lparr>vec_x = (if x_blocked delta cs p v then vec_x p
                                           else vec_x p - vec_x v * delta),
                   vec_y = 2,
                   vec_z = (if z_blocked delta cs p v then vec_z p
                            else vec_z p + vec_z v * delta)\<rparr>\<rparr>,
               v\<lparr>vec_x := (if x_blocked delta cs p v then 0 else vec_x v),
                 vec_z := (if z_blocked delta cs p v then 0 else vec_z v)\<rparr>) \<and>
            (x_blocked delta cs p v \<and> \<not> z_blocked delta cs p v \<and>
             \<bar>vec_x p\<bar> \<le> limit \<and> \<bar>vec_z p + vec_z v * delta\<bar> \<le> limit \<longrightarrow>
               (\<exists>cam'. controls (updateMovement delta cs s) = Some cam' \<and>
                  position cam' =
                    \<lparr>vec_x = vec_x p, vec_y = 2, vec_z = vec_z p + vec_z v * delta\<rparr> \<and>
                  velocity (updateMovement delta cs s) = v\<lparr>vec_x := 0\<rparr> \<and>
                  \<not> checkBuildingCollisions cs (position cam'))))"
proof -
  have gx: "vec_x (position (fst (attempt_x delta cs p (cam, v)))) = vec_x p"
    if "x_rollback delta cs cam v"
    using x_rollback_keeps_x [OF that] assms(2) by simp
  have gz: "vec_z (position (fst (move_player delta cs cam v))) = vec_z p"
    if "z_rollback delta cs cam v"
    using z_rollback_keeps_z [OF that] assms(2) by simp
  have mp: "move_player delta cs cam v =
           (cam\<lparr>position := \<lparr>vec_x = (if x_blocked delta cs p v then vec_x p
                                        else vec_x p - vec_x v * delta),
                vec_y = 2,
                vec_z = (if z_blocked delta cs p v then vec_z p
                         else vec_z p + vec_z v * delta)\<rparr>\<rparr>,
            v\<lparr>vec_x := (if x_blocked delta cs p v then 0 else vec_x v),
              vec_z := (if z_blocked delta cs p v then 0 else vec_z v)\<rparr>)"
    if al: "axis_aligned cam"
    using move_player_aligned [OF al, of delta cs v] assms(2)
    by (simp add: x_after_def)
  have slide: "\<exists>cam'. controls (updateMovement delta cs s) = Some cam' \<and>
               position cam' = \<lparr>vec_x = vec_x p, vec_y = 2, vec_z = vec_z p + vec_z v * delta\<rparr> \<and>
               velocity (updateMovement delta cs s) = v\<lparr>vec_x := 0\<rparr> \<and>
               \<not> checkBuildingCollisions cs (position cam')"
    if al: "axis_aligned cam"
      and xb: "x_blocked delta cs p v" and zf: "\<not> z_blocked delta cs p v"
      and inx: "\<bar>vec_x p\<bar> \<le> limit" and inz: "\<bar>vec_z p + vec_z v * delta\<bar> \<le> limit"
  proof -
    let ?c = "cam\<lparr>position := \<lparr>vec_x = vec_x p, vec_y = 2, vec_z = vec_z p + vec_z v * delta\<rparr>\<rparr>"
    have m: "move_player delta cs cam v = (?c, v\<lparr>vec_x := 0\<rparr>)"
      using mp [OF al] xb zf by simp
    have c: "clamp_to_city (?c, v\<lparr>vec_x := 0\<rparr>) = (?c, v\<lparr>vec_x := 0\<rparr>)"
      using inx inz by (intro clamp_to_city_inside) simp_all
    have free: "\<not> checkBuildingCollisions cs (position ?c)"
      using zf xb
      by (simp add: z_blocked_def x_after_def checkBuildingCollisions_iff)
    have "controls (updateMovement delta cs s) = Some ?c"
      and "velocity (updateMovement delta cs s) = v\<lparr>vec_x := 0\<rparr>"
      by (simp_all add: updateMovement_Some [OF assms(1)] assms(3) m c)
    with free show ?thesis by simp
  qed
  from checkBuildingCollisions_iff [of cs q] snd_move_player [of delta cs cam v] gx gz mp slide
  show ?thesis
    by blast
qed

lemma aligned_slide_example:
  "x_blocked (1/20) wall \<lparr>vec_x = 3, vec_y = 2, vec_z = 0\<rparr> \<lparr>vec_x = - 40, vec_y = 0, vec_z = 20\<rparr> \<and>
   \<not> z_blocked (1/20) wall \<lparr>vec_x = 3, vec_y = 2, vec_z = 0\<rparr> \<lparr>vec_x = - 40, vec_y = 0, vec_z = 20\<rparr> \<and>
   x_rollback (1/20) wall (start_camera\<lparr>position := \<lparr>vec_x = 3, vec_y = 2, vec_z = 0\<rparr>\<rparr>)
     \<lparr>vec_x = - 40, vec_y = 0, vec_z = 20\<rparr> \<and>
   controls (updateMovement (1/20) wall (place 3 0 (- 80) 40)) =
     Some (start_camera\<lparr>position := \<lparr>vec_x = 3, vec_y = 2, vec_z = 1\<rparr>\<rparr>) \<and>
   velocity (updateMovement (1/20) wall (place 3 0 (- 80) 40)) = \<lparr>vec_x = 0, vec_y = 0, vec_z = 20\<rparr>"
  using aligned_axis_separation [of "place 3 0 (- 80) 40"
      "start_camera\<lparr>position := \<lparr>vec_x = 3, vec_y = 2, vec_z = 0\<rparr>\<rparr>"
      "\<lparr>vec_x = 3, vec_y = 2, vec_z = 0\<rparr>" "1/20" "\<lparr>vec_x = - 40, vec_y = 0, vec_z = 20\<rparr>" wall]
  by (simp add: movement_defs axis_aligned_def x_blocked_def z_blocked_def x_after_def wall_def
      x_rollback_def)


















text \<open>
  C3 fails on the code when the camera is turned. The player of \<open>facing_west\<close> stands at
  \<open>(11.2, 2, -40)\<close>, outside every padded collider of the generated world, and walks
  towards the school. In one frame of \<open>delta = 1/20\<close> the X attempt does not move it; the
  Z attempt, \<open>controls.moveForward\<close>, moves it along the negative x axis to
  \<open>(10.8, 2, -40)\<close>, inside the school's padded collider; the overlap is detected, but the
  rollback restores z alone, which did not change. The frame ends with the player inside
  the padded collider and the velocity 0: it is not stopped at the boundary.
\<close>

theorem turned_camera_enters_collider:
  "\<not> checkBuildingCollisions (initWorld rnd_half) \<lparr>vec_x = 11.2, vec_y = 2, vec_z = - 40\<rparr> \<and>
   controls (updateMovement (1/20) (initWorld rnd_half) facing_west) =
     Some \<lparr>position = \<lparr>vec_x = 10.8, vec_y = 2, vec_z = - 40\<rparr>,
           right = \<lparr>vec_x = 0, vec_y = 0, vec_z = - 1\<rparr>\<rparr> \<and>
   velocity (updateMovement (1/20) (initWorld rnd_half) facing_west) =
     \<lparr>vec_x = 0, vec_y = 0, vec_z = 0\<rparr> \<and>
   checkBuildingCollisions (initWorld rnd_half) \<lparr>vec_x = 10.8, vec_y = 2, vec_z = - 40\<rparr>"
  by (simp add: movement_defs facing_west_def initWorld_def createBuildings_def
      roadsideBuildings_def mediumBuildings_def generatedBuildings_def gridRange_def
      isOccupied_def reservedLocations_def skyscrapers_def collider_of_def school_collider_def
      rnd_half_def)

section \<open>Properties of the day and night cycle\<close>

lemma js_rem_1_nonneg: "0 \<le> a \<Longrightarrow> js_rem a 1 = frac a"
  by (simp add: js_rem_def trunc_def frac_def)

lemma angle_eq: "t * pi * 2 = 2 * pi * t"
  by simp

lemma timeOfDay_render: "timeOfDay (render_sky t s) = t"
  by (simp add: render_sky_def Let_def)

lemma sunMesh_render:
  "sunMesh s = Some m \<Longrightarrow>
   \<exists>m'. sunMesh (render_sky t s) = Some m' \<and> visible m' = (sunY_of t > - 10) \<and>
        mesh_position m' = \<lparr>vec_x = cos (2 * pi * t) * 150, vec_y = sunY_of t, vec_z = - 30\<rparr>"
  by (simp add: render_sky_def Let_def sunY_of_def orbitRadius_def angle_eq)

lemma moonMesh_render:
  "moonMesh s = Some m \<Longrightarrow>
   \<exists>m'. moonMesh (render_sky t s) = Some m' \<and> visible m' = (- sunY_of t > - 10) \<and>
        mesh_position m' = \<lparr>vec_x = - (cos (2 * pi * t) * 150), vec_y = - sunY_of t, vec_z = 30\<rparr>"
  by (simp add: render_sky_def Let_def sunY_of_def orbitRadius_def angle_eq)

lemma streetLamps_render:
  "streetLamps (render_sky t s) = map (update_lamp (nightFactor_of t)) (streetLamps s)"
  by (simp add: render_sky_def Let_def nightFactor_of_def dayFactor_of_def angle_eq)

lemma updateDayNight_ready:
  "hemiLight s \<noteq> None \<Longrightarrow> sunLight s \<noteq> None \<Longrightarrow>
   updateDayNight delta s = render_sky (advance_time delta s) s"
  by (auto simp: updateDayNight_def)

lemma timeOfDay_updateDayNight:
  "hemiLight s \<noteq> None \<Longrightarrow> sunLight s \<noteq> None \<Longrightarrow>
   timeOfDay (updateDayNight delta s) = advance_time delta s"
  by (simp add: updateDayNight_ready timeOfDay_render)

text \<open>
  C1, amended. After every update with the lights and both meshes in place, at the phase
  the update leaves: the sun is visible exactly when \<open>sunY > -10\<close> and the moon exactly when
  \<open>sunY < 10\<close>, where \<open>sunY = sin (2 * pi * phase) * 150\<close>; at least one of the two is always
  visible; both are visible exactly in the band \<open>\<bar>sunY\<bar> < 10\<close> around the horizon, and the
  moon's flag is the negation of the sun's exactly outside that band. The moon stands at
  the negated position of the sun.
\<close>

theorem sun_moon_visibility:
  assumes "hemiLight s \<noteq> None" and "sunLight s \<noteq> None"
    and "sunMesh s = Some sm" and "moonMesh s = Some mm"
  shows "\<exists>sm' mm'.
           sunMesh (updateDayNight delta s) = Some sm' \<and>
           moonMesh (updateDayNight delta s) = Some mm' \<and>
           visible sm' = (sunY_of (timeOfDay (updateDayNight delta s)) > - 10) \<and>
           visible mm' = (sunY_of (timeOfDay (updateDayNight delta s)) < 10) \<and>
           (visible sm' \<or> visible mm') \<and>
           ((visible sm' \<and> visible mm') = (\<bar>sunY_of (timeOfDay (updateDayNight delta s))\<bar> < 10)) \<and>
           (visible mm' = (\<not> visible sm')) =
              (10 \<le> \<bar>sunY_of (timeOfDay (updateDayNight delta s))\<bar>) \<and>
           mesh_position mm' =
             \<lparr>vec_x = - vec_x (mesh_position sm'), vec_y = - vec_y (mesh_position sm'),
              vec_z = - vec_z (mesh_position sm')\<rparr>"
proof -
  let ?t = "advance_time delta s"
  have t: "timeOfDay (updateDayNight delta s) = ?t"
    using assms(1,2) by (rule timeOfDay_updateDayNight)
  have u: "updateDayNight delta s = render_sky ?t s"
    using assms(1,2) by (rule updateDayNight_ready)
  from sunMesh_render [OF assms(3), of ?t] obtain sm'
    where sm: "sunMesh (render_sky ?t s) = Some sm'" "visible sm' = (sunY_of ?t > - 10)"
      "mesh_position sm' = \<lparr>vec_x = cos (2 * pi * ?t) * 150, vec_y = sunY_of ?t, vec_z = - 30\<rparr>"
    by blast
  from moonMesh_render [OF assms(4), of ?t] obtain mm'
    where mm: "moonMesh (render_sky ?t s) = Some mm'" "visible mm' = (- sunY_of ?t > - 10)"
      "mesh_position mm' = \<lparr>vec_x = - (cos (2 * pi * ?t) * 150), vec_y = - sunY_of ?t, vec_z = 30\<rparr>"
    by blast
  show ?thesis
    unfolding u using sm mm by (auto simp: abs_less_iff timeOfDay_render)
qed

theorem sun_moon_visibility_witness:
  "map_option visible (sunMesh (updateDayNight 0 (lit_world (1/4) False))) = Some True \<and>
   map_option visible (moonMesh (updateDayNight 0 (lit_world (1/4) False))) = Some False \<and>
   sunY_of (timeOfDay (updateDayNight 0 (lit_world (1/4) False))) = 150"
  using sun_moon_visibility [of "lit_world (1/4) False" _ _ 0]
  by (simp add: lit_world_def updateDayNight_def advance_time_def render_sky_def Let_def
      sunY_of_def orbitRadius_def)

text \<open>
  C1 as stated fails at the horizon: at phase 0 and at phase 1/2 the sun's height is 0 and
  both flags are true.
\<close>

theorem sun_moon_visibility_counterexample:
  "map_option visible (sunMesh (updateDayNight 0 (lit_world 0 False))) = Some True \<and>
   map_option visible (moonMesh (updateDayNight 0 (lit_world 0 False))) = Some True \<and>
   map_option visible (sunMesh (updateDayNight 0 (lit_world (1/2) False))) = Some True \<and>
   map_option visible (moonMesh (updateDayNight 0 (lit_world (1/2) False))) = Some True"
  by (simp add: lit_world_def updateDayNight_def advance_time_def render_sky_def Let_def
      orbitRadius_def)


text \<open>
  C6. After every update, with \<open>dayFactor = max 0 (sin (2 * pi * phase))\<close> and
  \<open>nightFactor = 1 - dayFactor\<close> at the phase the update leaves, every street lamp's point
  light has intensity \<open>3 * max 0 (nightFactor - 0.2)\<close>: zero while the night factor is at most
  0.2, then growing linearly; the bulb's emissive intensity is 2 when that intensity
  exceeds 0.1 and 0 otherwise.
\<close>

theorem street_lamp_intensity:
  assumes "hemiLight s \<noteq> None" and "sunLight s \<noteq> None"
    and "i < length (streetLamps s)"
    and "nf = nightFactor_of (timeOfDay (updateDayNight delta s))"
    and "lamp = streetLamps (updateDayNight delta s) ! i"
  shows "length (streetLamps (updateDayNight delta s)) = length (streetLamps s) \<and>
         nf = 1 - max 0 (sin (2 * pi * timeOfDay (updateDayNight delta s))) \<and>
         light_intensity lamp = 3.0 * max 0 (nf - 0.2) \<and>
         (nf \<le> 0.2 \<longrightarrow> light_intensity lamp = 0) \<and>
         (nf > 0.2 \<longrightarrow> light_intensity lamp = 3.0 * (nf - 0.2)) \<and>
         bulb_emissiveIntensity lamp = (if light_intensity lamp > 0.1 then 2.0 else 0)"
proof -
  have u: "updateDayNight delta s = render_sky (advance_time delta s) s"
    using assms(1,2) by (rule updateDayNight_ready)
  have nf: "nf = nightFactor_of (advance_time delta s)"
    using assms(4) by (simp add: u timeOfDay_render)
  have lamp: "lamp = update_lamp nf (streetLamps s ! i)"
    using assms(3,5) by (simp add: u streetLamps_render nf)
  show ?thesis
    using assms(3)
    by (simp add: u streetLamps_render timeOfDay_render nf [symmetric] lamp update_lamp_def Let_def)
      (simp add: nf nightFactor_of_def dayFactor_of_def)
qed

theorem street_lamp_intensity_witness:
  "streetLamps (updateDayNight 0 (lit_world 0 False)) =
     [\<lparr>light_intensity = 2.4, bulb_emissiveIntensity = 2\<rparr>] \<and>
   streetLamps (updateDayNight 0 (lit_world (1/4) False)) =
     [\<lparr>light_intensity = 0, bulb_emissiveIntensity = 0\<rparr>] \<and>
   nightFactor_of 0 = 1 \<and> nightFactor_of (1/4) = 0"
  using street_lamp_intensity [of "lit_world 0 False" 0 "nightFactor_of 0" 0
      "\<lparr>light_intensity = 2.4, bulb_emissiveIntensity = 2\<rparr>"]
  by (simp add: lit_world_def updateDayNight_def advance_time_def render_sky_def Let_def
      update_lamp_def nightFactor_of_def dayFactor_of_def)

text \<open>
  C5, amended. With the auto cycle on, an update advances the phase by
  \<open>delta * cycleSpeed\<close> and keeps the fractional part, where \<open>cycleSpeed = 0.001388\<close>. One real
  second is therefore 1.99872 simulated minutes of the 1440 of a day; after 720 real
  seconds the phase has advanced by 0.99936, and a full day takes \<open>250000 / 347\<close> seconds,
  about 720.46.
\<close>

theorem day_cycle_speed:
  assumes "hemiLight s \<noteq> None" and "sunLight s \<noteq> None" and "dayNightAuto s"
    and "0 \<le> timeOfDay s" and "0 \<le> delta"
  shows "timeOfDay (updateDayNight delta s) = frac (timeOfDay s + delta * cycleSpeed) \<and>
         0 \<le> timeOfDay (updateDayNight delta s) \<and> timeOfDay (updateDayNight delta s) < 1 \<and>
         cycleSpeed = 1388 / 1000000 \<and>
         1440 * (1 * cycleSpeed) = 1.99872 \<and>
         720 * cycleSpeed = 0.99936 \<and>
         (250000 / 347) * cycleSpeed = 1"
proof -
  have "0 \<le> timeOfDay s + delta * cycleSpeed"
    using assms(4,5) by (simp add: cycleSpeed_def)
  then have "timeOfDay (updateDayNight delta s) = frac (timeOfDay s + delta * cycleSpeed)"
    using assms(1,2,3) by (simp add: timeOfDay_updateDayNight advance_time_def js_rem_1_nonneg)
  then show ?thesis
    by (simp add: frac_ge_0 frac_lt_1 cycleSpeed_def)
qed

theorem day_cycle_speed_witness:
  "timeOfDay (updateDayNight 100 (lit_world (9/10) True)) = 0.0388 \<and>
   dayNightAuto (lit_world (9/10) True)"
  using day_cycle_speed [of "lit_world (9/10) True" 100]
  by (simp add: lit_world_def cycleSpeed_def frac_def)

text \<open>
  C5 as stated fails: the constant is not \<open>1 / 720\<close>, a second is not 2 simulated
  minutes, and 720 seconds from phase 0 end at phase 0.99936, before the day is over.
\<close>

theorem day_cycle_speed_counterexample:
  "cycleSpeed \<noteq> 1 / 720 \<and> 1440 * (1 * cycleSpeed) \<noteq> 2 \<and>
   timeOfDay (updateDayNight 720 (lit_world 0 True)) = 0.99936 \<and>
   timeOfDay (updateDayNight 720 (lit_world 0 True)) \<noteq> 0"
  by (simp add: lit_world_def updateDayNight_def advance_time_def render_sky_def Let_def
      cycleSpeed_def js_rem_def trunc_def)

section \<open>Properties of the HUD clock\<close>

lemma dec_digits_small: "n < 10 \<Longrightarrow> dec_digits n = [digit_char n]"
  by (subst dec_digits.simps) simp

lemma dec_digits_two:
  assumes "10 \<le> n" and "n < 100"
  shows "dec_digits n = [digit_char (n div 10), digit_char (n mod 10)]"
proof -
  have "n div 10 < 10" using assms by simp
  then have "dec_digits (n div 10) = [digit_char (n div 10)]" by (rule dec_digits_small)
  moreover have "dec_digits n = dec_digits (n div 10) @ [digit_char (n mod 10)]"
    using assms(1) by (subst dec_digits.simps) simp
  ultimately show ?thesis by simp
qed

lemma padStart2_toString:
  assumes "0 \<le> n" and "n < 100"
  shows "padStart2 (toString n) = two_digits n"
proof (cases "n < 10")
  case True
  with assms have "nat n < 10" by simp
  then show ?thesis
    using assms(1)
    by (simp add: padStart2_def toString_def two_digits_def dec_digits_small digit_char_def
       )
next
  case False
  with assms have "10 \<le> nat n" "nat n < 100" by simp_all
  then show ?thesis
    using assms(1)
    by (simp add: padStart2_def toString_def two_digits_def dec_digits_two
       )
qed

lemma clock_render:
  fixes t :: real
  assumes "6 \<le> t" and "t < 30"
  shows "padStart2 (toString \<lfloor>if t \<ge> 24 then t - 24 else t\<rfloor>) @ '':'' @
         padStart2 (toString \<lfloor>((if t \<ge> 24 then t - 24 else t) -
            of_int \<lfloor>if t \<ge> 24 then t - 24 else t\<rfloor>) * 60\<rfloor>) =
         two_digits (\<lfloor>t\<rfloor> mod 24) @ '':'' @ two_digits \<lfloor>frac t * 60\<rfloor>"
proof -
  from assms have fl: "6 \<le> \<lfloor>t\<rfloor>" "\<lfloor>t\<rfloor> < 30"
    by (simp_all add: le_floor_iff floor_less_iff)
  have m0: "0 \<le> \<lfloor>frac t * 60\<rfloor>"
    by (simp add: frac_ge_0)
  have "frac t * 60 < 60" using frac_lt_1 [of t] by simp
  then have mr: "\<lfloor>frac t * 60\<rfloor> < 100" by (simp add: floor_less_iff)
  show ?thesis
  proof (cases "24 \<le> t")
    case True
    then have "24 \<le> \<lfloor>t\<rfloor>" by (simp add: le_floor_iff)
    with fl have h: "\<lfloor>t\<rfloor> mod 24 = \<lfloor>t\<rfloor> - 24"
      by presburger
    have fl24: "\<lfloor>t - 24\<rfloor> = \<lfloor>t\<rfloor> - 24"
      using floor_diff_of_int [of t 24] by simp
    have mins: "t - 24 - of_int (\<lfloor>t\<rfloor> - 24) = frac t"
      by (simp add: frac_def)
    have hr: "0 \<le> \<lfloor>t\<rfloor> - 24" "\<lfloor>t\<rfloor> - 24 < 100"
      using \<open>24 \<le> \<lfloor>t\<rfloor>\<close> fl by simp_all
    show ?thesis
      by (simp only: True if_True fl24 mins h padStart2_toString [OF hr]
          padStart2_toString [OF m0 mr])
  next
    case False
    then have "\<lfloor>t\<rfloor> < 24" by (simp add: floor_less_iff)
    with fl have h: "\<lfloor>t\<rfloor> mod 24 = \<lfloor>t\<rfloor>" by presburger
    have hr: "0 \<le> \<lfloor>t\<rfloor>" "\<lfloor>t\<rfloor> < 100" using fl by simp_all
    have mins: "t - of_int \<lfloor>t\<rfloor> = frac t"
      by (simp add: frac_def)
    show ?thesis
      by (simp only: False if_False mins h padStart2_toString [OF hr]
          padStart2_toString [OF m0 mr])
  qed
qed

lemma clock_text_spec:
  assumes "0 \<le> p" and "p < 1"
  shows "clock_text p =
           two_digits (\<lfloor>6 + p * 24\<rfloor> mod 24) @ '':'' @ two_digits \<lfloor>frac (6 + p * 24) * 60\<rfloor>"
proof -
  have t: "6 \<le> 6 + p * 24" "6 + p * 24 < 30" using assms by simp_all
  show ?thesis
    unfolding clock_text_def Let_def by (rule clock_render [OF t])
qed

lemma clock_ranges:
  assumes "0 \<le> p" and "p < 1"
  shows "0 \<le> \<lfloor>6 + p * 24\<rfloor> mod 24 \<and> \<lfloor>6 + p * 24\<rfloor> mod 24 < 24 \<and>
         0 \<le> \<lfloor>frac (6 + p * 24) * 60\<rfloor> \<and> \<lfloor>frac (6 + p * 24) * 60\<rfloor> < 60"
proof -
  have "frac (6 + p * 24) * 60 < 60" using frac_lt_1 [of "6 + p * 24"] by simp
  then have "\<lfloor>frac (6 + p * 24) * 60\<rfloor> < 60" by (simp only: floor_less_iff of_int_numeral)
  moreover have "0 \<le> \<lfloor>frac (6 + p * 24) * 60\<rfloor>"
    by (simp add: frac_ge_0)
  ultimately show ?thesis by simp
qed

lemmas clock_defs = updateGameClock_def clock_text_def Let_def padStart2_def toString_def digit_char_def
  dec_digits.simps

text \<open>
  C7. For every phase in \<open>[0, 1)\<close> the clock shows the hour \<open>\<lfloor>6 + phase * 24\<rfloor> mod 24\<close>
  (between 0 and 23) and the minute \<open>\<lfloor>frac (6 + phase * 24) * 60\<rfloor>\<close> (between 0 and 59),
  each written with two digits, a colon between them. Phase 0 gives 06:00, phase 0.25
  gives 12:00, phase 0.5 gives 18:00 and phase 0.75, past 24 hours, gives 00:00.
\<close>

theorem clock_face:
  assumes "0 \<le> p" and "p < 1"
  shows "updateGameClock (Some old) p =
           Some (two_digits (\<lfloor>6 + p * 24\<rfloor> mod 24) @ '':'' @
                 two_digits \<lfloor>frac (6 + p * 24) * 60\<rfloor>) \<and>
         0 \<le> \<lfloor>6 + p * 24\<rfloor> mod 24 \<and> \<lfloor>6 + p * 24\<rfloor> mod 24 < 24 \<and>
         0 \<le> \<lfloor>frac (6 + p * 24) * 60\<rfloor> \<and> \<lfloor>frac (6 + p * 24) * 60\<rfloor> < 60 \<and>
         updateGameClock (Some old) 0 = Some ''06:00'' \<and>
         updateGameClock (Some old) 0.25 = Some ''12:00'' \<and>
         updateGameClock (Some old) 0.5 = Some ''18:00'' \<and>
         updateGameClock (Some old) 0.75 = Some ''00:00''"
proof -
  have ex: "updateGameClock (Some old) 0 = Some ''06:00''"
    "updateGameClock (Some old) 0.25 = Some ''12:00''"
    "updateGameClock (Some old) 0.5 = Some ''18:00''"
    "updateGameClock (Some old) 0.75 = Some ''00:00''"
    by (simp_all add: clock_defs)
  have "updateGameClock (Some old) p =
           Some (two_digits (\<lfloor>6 + p * 24\<rfloor> mod 24) @ '':'' @
                 two_digits \<lfloor>frac (6 + p * 24) * 60\<rfloor>)"
    by (simp only: updateGameClock_def option.case clock_text_spec [OF assms])
  with clock_ranges [OF assms] ex show ?thesis
    by (simp only: simp_thms)
qed

theorem clock_face_witness:
  "updateGameClock (Some ''06:00'') 0.7 = Some ''22:48'' \<and>
   two_digits (\<lfloor>6 + 0.7 * 24 :: real\<rfloor> mod 24) = ''22'' \<and>
   two_digits \<lfloor>frac (6 + 0.7 * 24 :: real) * 60\<rfloor> = ''48''"
  using clock_face [of "0.7" "''06:00''"]
  by (simp add: two_digits_def digit_char_def frac_def)


section \<open>Properties of the generated world\<close>

lemma free_cells:
  "filter (\<lambda>(x, z). \<not> isOccupied x z) (List.product gridRange gridRange) =
   [(- 120, - 120), (- 120, - 80), (- 120, - 40), (- 120, 0), (- 120, 40), (- 120, 80), (- 120, 120),
    (- 80, - 120), (- 80, - 80), (- 80, - 40), (- 80, 0), (- 80, 120),
    (- 40, - 120), (- 40, - 40), (- 40, 0), (- 40, 40), (- 40, 120),
    (0, - 120), (0, - 80), (0, 0), (0, 40), (0, 80), (0, 120),
    (40, - 120), (40, 0), (40, 40), (40, 80), (40, 120),
    (80, - 120), (80, - 40), (80, 0), (80, 40), (80, 120),
    (120, - 120), (120, - 80), (120, - 40), (120, 0), (120, 40), (120, 80), (120, 120)]"
  by (simp add: gridRange_def isOccupied_def reservedLocations_def skyscrapers_def)

lemma centres_generate:
  "map (\<lambda>b. (cfg_x b, cfg_z b)) (generate rnd k cells) =
   filter (\<lambda>(x, z). \<not> isOccupied x z) cells"
  by (induction rnd k cells rule: generate.induct) (simp_all add: Let_def)

lemma sizes_generate:
  assumes "\<forall>n. 0 \<le> rnd n \<and> rnd n < 1"
  shows "b \<in> set (generate rnd k cells) \<Longrightarrow>
         12 \<le> cfg_width b \<and> cfg_width b < 14 \<and> 12 \<le> cfg_depth b \<and> cfg_depth b < 14"
proof (induction cells arbitrary: k)
  case Nil
  then show ?case by simp
next
  case (Cons cell cells)
  obtain x z where cell: "cell = (x, z)" by (cases cell)
  have r: "0 \<le> rnd n" "rnd n < 1" for n
    using assms by simp_all
  show ?case
  proof (cases "isOccupied x z")
    case True
    with Cons show ?thesis by (simp add: cell)
  next
    case False
    with Cons.prems have "b \<in> set (generate rnd (k + 4) cells) \<or>
        (cfg_width b = 12 + rnd (k + 2) * 2 \<and> cfg_depth b = 12 + rnd (k + 3) * 2)"
      by (auto simp: cell Let_def)
    then show ?thesis
      using Cons.IH [of "k + 4"] r [of "k + 2"] r [of "k + 3"] by auto
  qed
qed

lemma centres_initWorld:
  "map col_centre (initWorld rnd) =
   filter (\<lambda>(x, z). \<not> isOccupied x z) (List.product gridRange gridRange) @
   [(- 80, 80), (- 40, 80), (- 80, 40), (80, - 80), (40, - 80), (80, 80), (- 40, - 80), (0, - 40)]"
proof -
  have cm: "map col_centre (map collider_of bs) = map (\<lambda>b. (cfg_x b, cfg_z b)) bs" for bs
    by (simp add: col_centre_def collider_of_def)
  have sky: "map (\<lambda>b. (cfg_x b, cfg_z b)) skyscrapers =
      [(- 80, 80), (- 40, 80), (- 80, 40), (80, - 80), (40, - 80), (80, 80), (- 40, - 80)]"
    by (simp add: skyscrapers_def)
  have sch: "col_centre school_collider = (0, - 40)"
    by (simp add: school_collider_def col_centre_def)
  have "map col_centre (initWorld rnd) =
      map (\<lambda>b. (cfg_x b, cfg_z b)) (generate rnd 0 (List.product gridRange gridRange)) @
      map (\<lambda>b. (cfg_x b, cfg_z b)) skyscrapers @ [col_centre school_collider]"
    by (simp only: initWorld_def createBuildings_def roadsideBuildings_def mediumBuildings_def
        generatedBuildings_def map_append list.map cm append_Nil append_assoc)
  then show ?thesis
    by (simp only: centres_generate sky sch) simp
qed

lemma distinct_centres: "distinct (map col_centre (initWorld rnd))"
  unfolding centres_initWorld free_cells by simp

lemma length_initWorld: "length (initWorld rnd) = 48"
proof -
  have "length (map col_centre (initWorld rnd)) = 48"
    unfolding centres_initWorld free_cells by simp
  then show ?thesis by simp
qed

lemma on_grid:
  assumes "c \<in> set (initWorld rnd)"
  shows "col_x c \<in> set gridRange \<and> col_z c \<in> set gridRange"
proof -
  from assms have "col_centre c \<in> set (map col_centre (initWorld rnd))"
    by simp
  then show ?thesis
    unfolding centres_initWorld free_cells
    by (auto simp: col_centre_def gridRange_def)
qed

lemma sizes_initWorld:
  assumes "\<forall>n. 0 \<le> rnd n \<and> rnd n < 1" and "c \<in> set (initWorld rnd)"
  shows "0 < width c \<and> width c \<le> 20 \<and> 0 < depth c \<and> depth c \<le> 20 \<and>
         (c \<noteq> school_collider \<longrightarrow> width c \<le> 14 \<and> depth c \<le> 14)"
proof -
  from assms(2) consider
    b where "b \<in> set (generate rnd 0 (List.product gridRange gridRange))" "c = collider_of b"
    | b where "b \<in> set skyscrapers" "c = collider_of b"
    | "c = school_collider"
    by (auto simp: initWorld_def createBuildings_def roadsideBuildings_def mediumBuildings_def
        generatedBuildings_def)
  then show ?thesis
  proof cases
    case 1
    with sizes_generate [OF assms(1) 1(1)] show ?thesis
      by (simp add: collider_of_def)
  next
    case 2
    then show ?thesis
      by (auto simp: skyscrapers_def collider_of_def)
  next
    case 3
    then show ?thesis
      by (simp add: school_collider_def)
  qed
qed

lemma grid_apart:
  "x \<in> set gridRange \<Longrightarrow> x' \<in> set gridRange \<Longrightarrow> x \<noteq> x' \<Longrightarrow> 40 \<le> \<bar>x - x'\<bar>"
  by (auto simp: gridRange_def)

lemma grid_line_apart:
  "x \<in> set gridRange \<Longrightarrow> i \<in> set road_lines \<Longrightarrow> 20 \<le> \<bar>x - i\<bar>"
  by (auto simp: gridRange_def road_lines_def)

lemma no_overlap:
  assumes "col_x a \<in> set gridRange" "col_z a \<in> set gridRange"
    and "col_x b \<in> set gridRange" "col_z b \<in> set gridRange"
    and "width a \<le> 20" "depth a \<le> 20" "width b \<le> 20" "depth b \<le> 20"
    and "col_centre a \<noteq> col_centre b"
  shows "\<not> rect_overlap a b"
proof (cases "col_x a = col_x b")
  case True
  with assms(9) have "col_z a \<noteq> col_z b" by (simp add: col_centre_def)
  with assms(2,4) have "40 \<le> \<bar>col_z a - col_z b\<bar>" by (rule grid_apart)
  with assms(6,8) show ?thesis by (simp add: rect_overlap_def)
next
  case False
  with assms(1,3) have "40 \<le> \<bar>col_x a - col_x b\<bar>" by (rule grid_apart)
  with assms(5,7) show ?thesis by (simp add: rect_overlap_def)
qed

lemma away_from_lines:
  assumes "x \<in> set gridRange" and "\<bar>px - x\<bar> \<le> h" and "i \<in> set road_lines"
  shows "20 - h \<le> \<bar>px - i\<bar>"
  using grid_line_apart [OF assms(1,3)] assms(2) by linarith

lemma near_road_line_iff:
  "near_road_line m px pz \<longleftrightarrow>
     (\<exists>i \<in> set road_lines. (\<bar>px - i\<bar> < m \<and> \<bar>pz\<bar> < 150) \<or> (\<bar>pz - i\<bar> < m \<and> \<bar>px\<bar> < 150))"
  by (simp add: near_road_line_def list_ex_iff)

lemma on_road_lines:
  "on_road px pz \<Longrightarrow> \<exists>i \<in> set road_lines. \<bar>px - i\<bar> \<le> 6 \<or> \<bar>pz - i\<bar> \<le> 6"
  by (auto simp: on_road_def list_ex_iff createRoads_def roadWidth_def)

lemma collider_clear_of_roads:
  assumes "\<forall>n. 0 \<le> rnd n \<and> rnd n < 1" and "c \<in> set (initWorld rnd)" and "inside c px pz"
  shows "\<not> on_road px pz"
    and "c \<noteq> school_collider \<Longrightarrow> \<not> near_road_line road_buffer px pz"
proof -
  note g = on_grid [OF assms(2)]
  note sz = sizes_initWorld [OF assms(1,2)]
  from assms(3) have ins: "\<bar>px - col_x c\<bar> \<le> width c / 2" "\<bar>pz - col_z c\<bar> \<le> depth c / 2"
    by (simp_all add: inside_def)
  have far: "20 - width c / 2 \<le> \<bar>px - i\<bar> \<and> 20 - depth c / 2 \<le> \<bar>pz - i\<bar>"
    if "i \<in> set road_lines" for i
    using away_from_lines [OF _ ins(1) that] away_from_lines [OF _ ins(2) that] g by simp
  show "\<not> on_road px pz"
  proof
    assume "on_road px pz"
    then obtain i where i: "i \<in> set road_lines" "\<bar>px - i\<bar> \<le> 6 \<or> \<bar>pz - i\<bar> \<le> 6"
      using on_road_lines by blast
    with far [OF i(1)] sz show False by linarith
  qed
  show "\<not> near_road_line road_buffer px pz" if "c \<noteq> school_collider"
  proof
    assume "near_road_line road_buffer px pz"
    then obtain i where i: "i \<in> set road_lines" "\<bar>px - i\<bar> < 11 \<or> \<bar>pz - i\<bar> < 11"
      by (auto simp: near_road_line_iff road_buffer_def roadWidth_def)
    with far [OF i(1)] sz that show False by linarith
  qed
qed

lemma first_colliders:
  "take 2 (initWorld rnd_half) =
     [\<lparr>col_x = - 120, col_z = - 120, width = 13, depth = 13\<rparr>,
      \<lparr>col_x = - 120, col_z = - 80, width = 13, depth = 13\<rparr>]"
  by (simp add: initWorld_def createBuildings_def roadsideBuildings_def mediumBuildings_def
      generatedBuildings_def gridRange_def isOccupied_def reservedLocations_def skyscrapers_def
      collider_of_def rnd_half_def Let_def)

lemma central_building:
  "\<lparr>col_x = 0, col_z = 0, width = 13, depth = 13\<rparr> \<in> set (initWorld rnd_half)"
  by (simp add: initWorld_def createBuildings_def roadsideBuildings_def mediumBuildings_def
      generatedBuildings_def gridRange_def isOccupied_def reservedLocations_def skyscrapers_def
      collider_of_def rnd_half_def Let_def)

text \<open>
  C9, amended. When \<open>initWorld\<close> returns, whatever the random draws, the 48 registered
  colliders are pairwise disjoint: no two rectangles share a point. No point of a collider
  lies on the surface of a road. No point of a collider other than the school's lies in
  the road-proximity buffer, within road half-width plus margin (11) of a road line of the
  grid. The school's collider, 20 wide, is not kept out of that buffer.
\<close>

theorem colliders_after_generation:
  assumes "\<forall>n. 0 \<le> rnd n \<and> rnd n < 1"
    and "i < j" and "j < length (initWorld rnd)"
    and "c \<in> set (initWorld rnd)" and "inside c px pz"
  shows "length (initWorld rnd) = 48 \<and>
         \<not> rect_overlap (initWorld rnd ! i) (initWorld rnd ! j) \<and>
         \<not> on_road px pz \<and>
         (c \<noteq> school_collider \<longrightarrow> \<not> near_road_line road_buffer px pz) \<and>
         road_buffer = 11"
proof -
  let ?cs = "initWorld rnd"
  have i: "i < length ?cs" using assms(2,3) by simp
  have mi: "?cs ! i \<in> set ?cs" and mj: "?cs ! j \<in> set ?cs"
    using i assms(3) by simp_all
  have "(map col_centre ?cs ! i = map col_centre ?cs ! j) = (i = j)"
    using distinct_centres [of rnd] i assms(3) by (intro nth_eq_iff_index_eq) simp_all
  then have diff: "col_centre (?cs ! i) \<noteq> col_centre (?cs ! j)"
    using i assms(2,3) by simp
  have "\<not> rect_overlap (?cs ! i) (?cs ! j)"
    using on_grid [OF mi] on_grid [OF mj] sizes_initWorld [OF assms(1) mi]
      sizes_initWorld [OF assms(1) mj] diff
    by (intro no_overlap) simp_all
  with collider_clear_of_roads [OF assms(1,4,5)] length_initWorld [of rnd] show ?thesis
    by (simp add: road_buffer_def roadWidth_def)
qed

theorem colliders_after_generation_witness:
  "take 2 (initWorld rnd_half) =
     [\<lparr>col_x = - 120, col_z = - 120, width = 13, depth = 13\<rparr>,
      \<lparr>col_x = - 120, col_z = - 80, width = 13, depth = 13\<rparr>] \<and>
   \<not> rect_overlap (initWorld rnd_half ! 0) (initWorld rnd_half ! 1) \<and>
   inside \<lparr>col_x = - 80, col_z = 80, width = 14, depth = 14\<rparr> (- 73) 87 \<and>
   \<not> on_road (- 73) 87 \<and> \<not> near_road_line road_buffer (- 73) 87"
  using colliders_after_generation [of rnd_half 0 1
      "\<lparr>col_x = - 80, col_z = 80, width = 14, depth = 14\<rparr>" "- 73" 87]
    first_colliders
  by (simp add: rnd_half_def [abs_def] initWorld_def createBuildings_def skyscrapers_def
      collider_of_def school_collider_def inside_def)

text \<open>
  C9 as stated fails on the buffer. The school's collider is registered and contains the
  point \<open>(9.5, -40)\<close>, which is within 11 of the road line \<open>x = 20\<close> and for which
  \<open>isTooCloseToRoad\<close> holds. \<open>isTooCloseToRoad\<close> also treats \<open>x = 0\<close> and \<open>z = 0\<close> as road lines,
  so it holds at the centre of the building generated at \<open>(0, 0)\<close>.
\<close>

theorem colliders_after_generation_counterexample:
  "school_collider \<in> set (initWorld rnd_half) \<and>
   inside school_collider (19/2) (- 40) \<and>
   near_road_line road_buffer (19/2) (- 40) \<and>
   isTooCloseToRoad (19/2) (- 40) \<and>
   \<lparr>col_x = 0, col_z = 0, width = 13, depth = 13\<rparr> \<in> set (initWorld rnd_half) \<and>
   isTooCloseToRoad 0 0"
  using central_building
  by (simp add: initWorld_def school_collider_def inside_def near_road_line_def road_buffer_def
      roadWidth_def road_lines_def isTooCloseToRoad_def)

end
